theory Spec2Isabelle
  imports Main
begin

section \<open>Python values, exceptions and strings\<close>

text \<open>
  A Python \<open>str\<close> is modelled by its UTF-8 encoding, one \<open>char\<close> per byte, so that
  \<open>s.encode("utf-8")\<close> is the identity. The values that flow through the program are
  what \<open>json.loads\<close> yields (plus \<open>None\<close>, which is \<open>JNull\<close>); numbers with a fraction
  or an exponent are not modelled. A dict is the list of its items, keys distinct.
\<close>

datatype json =
    JNull
  | JBool bool
  | JInt int
  | JStr string
  | JArr "json list"
  | JObj "(string \<times> json) list"

datatype exc_class =
    RuntimeError | KeyError | TypeError | AttributeError | NameError
  | JSONDecodeError | RequestException | OSError | PygameError
  | KeyboardInterrupt | SystemExit

text \<open>An exception: its class and what \<open>str(e)\<close> returns.\<close>

datatype exc = Exc (exc_class: exc_class) (exc_str: string)

text \<open>\<open>except Exception\<close> catches every class but the two that derive from
  \<open>BaseException\<close> directly.\<close>

definition is_Exception :: "exc \<Rightarrow> bool" where
  "is_Exception e = (exc_class e \<noteq> KeyboardInterrupt \<and> exc_class e \<noteq> SystemExit)"

definition digit_char :: "nat \<Rightarrow> char" where
  "digit_char d = char_of (48 + d)"

function str_nat :: "nat \<Rightarrow> string" where
  "str_nat n = (if n < 10 then [digit_char n] else str_nat (n div 10) @ [digit_char (n mod 10)])"
  by pat_completeness auto
termination
  by (relation "measure id") auto

declare str_nat.simps [simp del]

text \<open>\<open>str(i)\<close> for a Python int.\<close>

definition str_int :: "int \<Rightarrow> string" where
  "str_int i = (if i < 0 then CHR ''-'' # str_nat (nat (- i)) else str_nat (nat i))"

definition quote :: "string \<Rightarrow> string" where
  "quote k = [CHR 0x27] @ k @ [CHR 0x27]"

text \<open>The characters of a \<open>str\<close>: a byte of the form \<open>10xxxxxx\<close> continues the
  character begun before it.\<close>

definition is_continuation :: "char \<Rightarrow> bool" where
  "is_continuation c = (128 \<le> (of_char c :: nat) \<and> (of_char c :: nat) < 192)"

fun utf8_chars :: "string \<Rightarrow> string list" where
  "utf8_chars [] = []"
| "utf8_chars (c # cs) =
     (case utf8_chars cs of
        (d # g) # gs \<Rightarrow> if is_continuation d then (c # d # g) # gs else [c] # (d # g) # gs
      | gs \<Rightarrow> [c] # gs)"

text \<open>\<open>str(v)\<close>, as an f-string field formats it. The text of a list or a dict is
  Python's \<open>repr\<close>, which depends on the Unicode tables: it is the parameter \<open>rp\<close>.\<close>

fun py_str :: "(json \<Rightarrow> string) \<Rightarrow> json \<Rightarrow> string" where
  "py_str rp JNull = ''None''"
| "py_str rp (JBool b) = (if b then ''True'' else ''False'')"
| "py_str rp (JInt i) = str_int i"
| "py_str rp (JStr s) = s"
| "py_str rp (JArr xs) = rp (JArr xs)"
| "py_str rp (JObj kv) = rp (JObj kv)"

text \<open>Truth value of a value in \<open>if v:\<close> and \<open>not v\<close>.\<close>

fun py_truthy :: "json \<Rightarrow> bool" where
  "py_truthy JNull = False"
| "py_truthy (JBool b) = b"
| "py_truthy (JInt i) = (i \<noteq> 0)"
| "py_truthy (JStr s) = (s \<noteq> [])"
| "py_truthy (JArr xs) = (xs \<noteq> [])"
| "py_truthy (JObj kv) = (kv \<noteq> [])"

definition type_name :: "json \<Rightarrow> string" where
  "type_name v = (case v of JNull \<Rightarrow> ''NoneType'' | JBool _ \<Rightarrow> ''bool'' | JInt _ \<Rightarrow> ''int''
     | JStr _ \<Rightarrow> ''str'' | JArr _ \<Rightarrow> ''list'' | JObj _ \<Rightarrow> ''dict'')"

text \<open>\<open>v[k]\<close> with a string key \<open>k\<close>: a dict looks the key up and raises \<open>KeyError\<close>
  when it is missing; every other value raises \<open>TypeError\<close> (the message differs
  between interpreter versions; nothing below depends on it).\<close>

definition py_getitem :: "json \<Rightarrow> string \<Rightarrow> exc + json" where
  "py_getitem v k = (case v of
       JObj kv \<Rightarrow> (case map_of kv k of
                     None \<Rightarrow> Inl (Exc KeyError (quote k))
                   | Some x \<Rightarrow> Inr x)
     | _ \<Rightarrow> Inl (Exc TypeError (quote (type_name v) @ '' object cannot be indexed by str'')))"

text \<open>\<open>v.get(k, d)\<close>: only a dict has the method.\<close>

definition py_get :: "json \<Rightarrow> string \<Rightarrow> json \<Rightarrow> exc + json" where
  "py_get v k d = (case v of
       JObj kv \<Rightarrow> Inr (case map_of kv k of None \<Rightarrow> d | Some x \<Rightarrow> x)
     | _ \<Rightarrow> Inl (Exc AttributeError
              (quote (type_name v) @ '' object has no attribute '' @ quote ''get'')))"

text \<open>\<open>v[:n]\<close>: a list and a str are sliced; nothing else can be (a dict raises
  \<open>TypeError\<close> before Python 3.12 and \<open>KeyError\<close> from then on; both are caught alike).\<close>

definition py_slice_to :: "nat \<Rightarrow> json \<Rightarrow> exc + json" where
  "py_slice_to n v = (case v of
       JArr xs \<Rightarrow> Inr (JArr (take n xs))
     | JStr s \<Rightarrow> Inr (JStr (concat (take n (utf8_chars s))))
     | _ \<Rightarrow> Inl (Exc TypeError (quote (type_name v) @ '' object cannot be sliced'')))"

text \<open>The items a \<open>for\<close> loop, \<open>enumerate\<close> or \<open>join\<close> draws from a value.\<close>

definition py_iter :: "json \<Rightarrow> exc + json list" where
  "py_iter v = (case v of
       JArr xs \<Rightarrow> Inr xs
     | JStr s \<Rightarrow> Inr (map JStr (utf8_chars s))
     | JObj kv \<Rightarrow> Inr (map (\<lambda>(k, _). JStr k) kv)
     | _ \<Rightarrow> Inl (Exc TypeError (quote (type_name v) @ '' object is not iterable'')))"

text \<open>\<open>sep.join(items)\<close>: every item has to be a str.\<close>

fun join_strs :: "string \<Rightarrow> json list \<Rightarrow> exc + string" where
  "join_strs sep [] = Inr []"
| "join_strs sep (JStr s # rest) =
     (if rest = [] then Inr s
      else (case join_strs sep rest of Inl e \<Rightarrow> Inl e | Inr t \<Rightarrow> Inr (s @ sep @ t)))"
| "join_strs sep (v # rest) =
     Inl (Exc TypeError (''sequence item: expected str instance, '' @ type_name v @ '' found''))"

definition py_join :: "string \<Rightarrow> json \<Rightarrow> exc + string" where
  "py_join sep v = (case py_iter v of Inl e \<Rightarrow> Inl e | Inr xs \<Rightarrow> join_strs sep xs)"

section \<open>HTTP requests and responses\<close>

record http_request =
  rq_method :: string
  rq_url :: string
  rq_headers :: "(string \<times> string) list"
  rq_params :: "(string \<times> json) list"
  rq_data :: "(string \<times> string) list"
  rq_timeout :: nat

text \<open>A response: \<open>resp.json()\<close> is \<open>json_body\<close>, \<open>None\<close> when the body does not
  parse.\<close>

record http_response =
  status_code :: int
  body_text :: string
  content :: string
  json_body :: "json option"

definition resp_json :: "http_response \<Rightarrow> exc + json" where
  "resp_json r = (case json_body r of
       None \<Rightarrow> Inl (Exc JSONDecodeError ''Expecting value'')
     | Some v \<Rightarrow> Inr v)"

text \<open>The network answers a request with a response or with an exception of the HTTP
  client; the requests a function has issued are appended to the list it is given.\<close>

type_synonym network = "http_request \<Rightarrow> exc + http_response"

section \<open>Spotify API helpers\<close>

definition b64_alphabet :: string where
  "b64_alphabet = ''ABCDEFGHIJKLMNOPQRSTUVWXYZabcdefghijklmnopqrstuvwxyz0123456789+/''"

definition b64_char :: "nat \<Rightarrow> char" where
  "b64_char n = b64_alphabet ! (n mod 64)"

fun b64_bytes :: "nat list \<Rightarrow> string" where
  "b64_bytes [] = []"
| "b64_bytes [a] = [b64_char (a div 4), b64_char ((a mod 4) * 16), CHR ''='', CHR ''='']"
| "b64_bytes [a, b] =
     [b64_char (a div 4), b64_char ((a mod 4) * 16 + b div 16),
      b64_char ((b mod 16) * 4), CHR ''='']"
| "b64_bytes (a # b # c # rest) =
     [b64_char (a div 4), b64_char ((a mod 4) * 16 + b div 16),
      b64_char ((b mod 16) * 4 + c div 64), b64_char (c mod 64)] @ b64_bytes rest"

text \<open>\<open>base64.b64encode(bs).decode("utf-8")\<close>.\<close>

definition b64encode :: "string \<Rightarrow> string" where
  "b64encode bs = b64_bytes (map of_char bs)"

definition token_request :: "string \<Rightarrow> string \<Rightarrow> http_request" where
  "token_request cid secret =
     \<lparr> rq_method = ''POST'',
       rq_url = ''https://accounts.spotify.com/api/token'',
       rq_headers = [(''Authorization'', ''Basic '' @ b64encode (cid @ '':'' @ secret)),
                     (''Content-Type'', ''application/x-www-form-urlencoded'')],
       rq_params = [],
       rq_data = [(''grant_type'', ''client_credentials'')],
       rq_timeout = 15 \<rparr>"

text \<open>\<open>get_token\<close>: \<open>CLIENT_ID\<close> and \<open>CLIENT_SECRET\<close> are what \<open>os.getenv\<close> gave,
  \<open>None\<close> when the variable is unset.\<close>

definition get_token ::
  "string option \<Rightarrow> string option \<Rightarrow> network \<Rightarrow> http_request list
     \<Rightarrow> (exc + json) \<times> http_request list" where
  "get_token CLIENT_ID CLIENT_SECRET net sent =
     (case (CLIENT_ID, CLIENT_SECRET) of
        (Some cid, Some secret) \<Rightarrow>
          if cid = [] \<or> secret = [] then
            (Inl (Exc RuntimeError ''Missing CLIENT_ID or CLIENT_SECRET in .env''), sent)
          else
            (case net (token_request cid secret) of
               Inl e \<Rightarrow> (Inl e, sent @ [token_request cid secret])
             | Inr resp \<Rightarrow>
                 (if status_code resp \<noteq> 200 then
                    Inl (Exc RuntimeError
                      (''Token error ['' @ str_int (status_code resp) @ '']: '' @ body_text resp))
                  else
                    (case resp_json resp of
                       Inl e \<Rightarrow> Inl e
                     | Inr body \<Rightarrow> py_getitem body ''access_token''),
                  sent @ [token_request cid secret]))
      | _ \<Rightarrow> (Inl (Exc RuntimeError ''Missing CLIENT_ID or CLIENT_SECRET in .env''), sent))"

definition auth_header :: "(json \<Rightarrow> string) \<Rightarrow> json \<Rightarrow> (string \<times> string) list" where
  "auth_header rp token = [(''Authorization'', ''Bearer '' @ py_str rp token)]"

definition top_tracks_request :: "(json \<Rightarrow> string) \<Rightarrow> json \<Rightarrow> json \<Rightarrow> json \<Rightarrow> http_request" where
  "top_tracks_request rp token artist_id market =
     \<lparr> rq_method = ''GET'',
       rq_url = ''https://api.spotify.com/v1/artists/'' @ py_str rp artist_id @ ''/top-tracks'',
       rq_headers = auth_header rp token,
       rq_params = [(''market'', market)],
       rq_data = [],
       rq_timeout = 15 \<rparr>"

text \<open>An argument with a default is an option: \<open>None\<close> when the caller leaves it out.\<close>

definition get_artist_top_tracks ::
  "(json \<Rightarrow> string) \<Rightarrow> json \<Rightarrow> json \<Rightarrow> json option \<Rightarrow> network \<Rightarrow> http_request list
     \<Rightarrow> (exc + json) \<times> http_request list" where
  "get_artist_top_tracks rp token artist_id market_arg net sent =
     (let market = (case market_arg of None \<Rightarrow> JStr ''US'' | Some m \<Rightarrow> m) in
      (case net (top_tracks_request rp token artist_id market) of
         Inl e \<Rightarrow> Inl e
       | Inr resp \<Rightarrow>
           if status_code resp \<noteq> 200 then
             Inl (Exc RuntimeError
               (''Top tracks error ['' @ str_int (status_code resp) @ '']: '' @ body_text resp))
           else
             (case resp_json resp of
                Inl e \<Rightarrow> Inl e
              | Inr body \<Rightarrow> py_getitem body ''tracks''),
       sent @ [top_tracks_request rp token artist_id market]))"

definition albums_request :: "(json \<Rightarrow> string) \<Rightarrow> json \<Rightarrow> json \<Rightarrow> json \<Rightarrow> http_request" where
  "albums_request rp token artist_id limit =
     \<lparr> rq_method = ''GET'',
       rq_url = ''https://api.spotify.com/v1/artists/'' @ py_str rp artist_id @ ''/albums'',
       rq_headers = auth_header rp token,
       rq_params = [(''include_groups'', JStr ''album,single,compilation''),
                    (''limit'', limit),
                    (''market'', JStr ''US'')],
       rq_data = [],
       rq_timeout = 15 \<rparr>"

definition get_artist_albums ::
  "(json \<Rightarrow> string) \<Rightarrow> json \<Rightarrow> json \<Rightarrow> json option \<Rightarrow> network \<Rightarrow> http_request list
     \<Rightarrow> (exc + json) \<times> http_request list" where
  "get_artist_albums rp token artist_id limit_arg net sent =
     (let limit = (case limit_arg of None \<Rightarrow> JInt 10 | Some l \<Rightarrow> l) in
      (case net (albums_request rp token artist_id limit) of
         Inl e \<Rightarrow> Inl e
       | Inr resp \<Rightarrow>
           if status_code resp \<noteq> 200 then
             Inl (Exc RuntimeError
               (''Albums error ['' @ str_int (status_code resp) @ '']: '' @ body_text resp))
           else
             (case resp_json resp of
                Inl e \<Rightarrow> Inl e
              | Inr body \<Rightarrow> py_getitem body ''items''),
       sent @ [albums_request rp token artist_id limit]))"

section \<open>Audio preview player\<close>

text \<open>
  The fields of \<open>PreviewPlayer\<close>, and the world its methods act on: the state of the
  pygame mixer (whether \<open>pygame.mixer.init()\<close> has succeeded, the file loaded as music,
  whether music is playing), the temporary files on disk with their contents, and the
  HTTP requests issued. \<open>pygame.mixer.music\<close> raises \<open>pygame.error\<close> when the mixer is not
  initialised.
\<close>

record player =
  initialized :: bool
  current_file :: "string option"
  is_playing :: bool

record world =
  mixer_ready :: bool
  music_loaded :: "string option"
  music_busy :: bool
  tmp_files :: "(string \<times> string) list"
  requested :: "http_request list"

text \<open>What the environment does to one run of the worker: whether the audio device
  opens, the name of the temporary file (or the error of creating it), and whether the
  writes and the engine calls fail.\<close>

record outcomes =
  mixer_init_fails :: "exc option"
  tmpfile_result :: "exc + string"
  write_fails :: "exc option"
  flush_fails :: "exc option"
  close_fails :: "exc option"
  load_fails :: "exc option"
  play_fails :: "exc option"

definition new_player :: player where
  "new_player = \<lparr> initialized = False, current_file = None, is_playing = False \<rparr>"

definition not_initialized :: exc where
  "not_initialized = Exc PygameError ''mixer not initialized''"

definition mixer_init :: "outcomes \<Rightarrow> world \<Rightarrow> exc + world" where
  "mixer_init outs w = (case mixer_init_fails outs of
       Some e \<Rightarrow> Inl e
     | None \<Rightarrow> Inr (w\<lparr>mixer_ready := True\<rparr>))"

definition music_stop :: "world \<Rightarrow> exc + world" where
  "music_stop w = (if mixer_ready w then Inr (w\<lparr>music_busy := False\<rparr>) else Inl not_initialized)"

definition music_load :: "outcomes \<Rightarrow> string \<Rightarrow> world \<Rightarrow> exc + world" where
  "music_load outs f w =
     (if \<not> mixer_ready w then Inl not_initialized
      else (case load_fails outs of
              Some e \<Rightarrow> Inl e
            | None \<Rightarrow> Inr (w\<lparr>music_loaded := Some f, music_busy := False\<rparr>)))"

definition music_play :: "outcomes \<Rightarrow> world \<Rightarrow> exc + world" where
  "music_play outs w =
     (if \<not> mixer_ready w then Inl not_initialized
      else (case play_fails outs of
              Some e \<Rightarrow> Inl e
            | None \<Rightarrow> Inr (w\<lparr>music_busy := True\<rparr>)))"

text \<open>A method returns the exception it raised, if any, with the state it left.\<close>

definition ensure_init :: "outcomes \<Rightarrow> player \<Rightarrow> world \<Rightarrow> exc option \<times> player \<times> world" where
  "ensure_init outs p w =
     (if \<not> initialized p then
        (case mixer_init outs w of
           Inl e \<Rightarrow> (Some e, p, w)
         | Inr w' \<Rightarrow> (None, p\<lparr>initialized := True\<rparr>, w'))
      else (None, p, w))"

definition stop :: "player \<Rightarrow> world \<Rightarrow> exc option \<times> player \<times> world" where
  "stop p w =
     (if \<not> initialized p then (None, p, w)
      else (case music_stop w of
              Inl e \<Rightarrow> (Some e, p, w)
            | Inr w' \<Rightarrow> (None, p\<lparr>is_playing := False\<rparr>, w')))"

definition preview_request :: "(json \<Rightarrow> string) \<Rightarrow> json \<Rightarrow> http_request" where
  "preview_request rp url =
     \<lparr> rq_method = ''GET'', rq_url = py_str rp url, rq_headers = [], rq_params = [],
       rq_data = [], rq_timeout = 20 \<rparr>"

text \<open>The statements of the worker's \<open>try\<close> block after \<open>self._ensure_init()\<close>.\<close>

definition download_and_play ::
  "(json \<Rightarrow> string) \<Rightarrow> json \<Rightarrow> outcomes \<Rightarrow> network \<Rightarrow> player \<Rightarrow> world
     \<Rightarrow> exc option \<times> player \<times> world" where
  "download_and_play rp url outs net p w =
     (let w1 = w\<lparr>requested := requested w @ [preview_request rp url]\<rparr> in
      case net (preview_request rp url) of
        Inl e \<Rightarrow> (Some e, p, w1)
      | Inr r \<Rightarrow>
          if status_code r \<noteq> 200 then
            (Some (Exc RuntimeError
               (''Preview download error ['' @ str_int (status_code r) @ '']'')), p, w1)
          else
            (case tmpfile_result outs of
               Inl e \<Rightarrow> (Some e, p, w1)
             | Inr name \<Rightarrow>
                 let w2 = w1\<lparr>tmp_files := tmp_files w1 @ [(name, [])]\<rparr> in
                 (case write_fails outs of
                    Some e \<Rightarrow> (Some e, p, w2)
                  | None \<Rightarrow>
                      let w3 = w1\<lparr>tmp_files := tmp_files w1 @ [(name, content r)]\<rparr> in
                      (case flush_fails outs of
                         Some e \<Rightarrow> (Some e, p, w3)
                       | None \<Rightarrow>
                           (case close_fails outs of
                              Some e \<Rightarrow> (Some e, p, w3)
                            | None \<Rightarrow>
                                let p1 = p\<lparr>current_file := Some name\<rparr> in
                                (case music_load outs name w3 of
                                   Inl e \<Rightarrow> (Some e, p1, w3)
                                 | Inr w4 \<Rightarrow>
                                     (case music_play outs w4 of
                                        Inl e \<Rightarrow> (Some e, p1, w4)
                                      | Inr w5 \<Rightarrow> (None, p1\<lparr>is_playing := True\<rparr>, w5))))))))"

text \<open>The whole \<open>try\<close> block of the worker.\<close>

definition play_body ::
  "(json \<Rightarrow> string) \<Rightarrow> json \<Rightarrow> outcomes \<Rightarrow> network \<Rightarrow> player \<Rightarrow> world
     \<Rightarrow> exc option \<times> player \<times> world" where
  "play_body rp url outs net p w =
     (case ensure_init outs p w of
        (Some e, p1, w1) \<Rightarrow> (Some e, p1, w1)
      | (None, p1, w1) \<Rightarrow> download_and_play rp url outs net p1 w1)"

text \<open>The user interface a callback acts on is the list of message boxes shown, each
  with its title and message. A callback may raise.\<close>

type_synonym dialogs = "(string \<times> string) list"

type_synonym callback = "string \<Rightarrow> dialogs \<Rightarrow> exc option \<times> dialogs"

text \<open>\<open>worker\<close>: the \<open>try\<close> block with its \<open>except Exception\<close> handler. The first
  component is the exception that leaves the worker.\<close>

definition worker ::
  "(json \<Rightarrow> string) \<Rightarrow> json \<Rightarrow> callback option \<Rightarrow> outcomes \<Rightarrow> network \<Rightarrow> player \<Rightarrow> world
     \<Rightarrow> dialogs \<Rightarrow> exc option \<times> player \<times> world \<times> dialogs" where
  "worker rp url on_error outs net p w u =
     (case play_body rp url outs net p w of
        (None, p1, w1) \<Rightarrow> (None, p1, w1, u)
      | (Some e, p1, w1) \<Rightarrow>
          if is_Exception e then
            (case on_error of
               None \<Rightarrow> (None, p1\<lparr>is_playing := False\<rparr>, w1, u)
             | Some cb \<Rightarrow>
                 (case cb (exc_str e) u of
                    (x, u') \<Rightarrow> (x, p1\<lparr>is_playing := False\<rparr>, w1, u')))
          else (Some e, p1, w1, u))"

text \<open>\<open>play_from_url\<close> starts the worker on a daemon thread and returns. The result is
  the exception raised to the caller (none), the exception that ended the thread, if
  any, and the state once the worker has run.\<close>

definition play_from_url ::
  "(json \<Rightarrow> string) \<Rightarrow> json \<Rightarrow> callback option \<Rightarrow> outcomes \<Rightarrow> network \<Rightarrow> player \<Rightarrow> world
     \<Rightarrow> dialogs \<Rightarrow> exc option \<times> exc option \<times> player \<times> world \<times> dialogs" where
  "play_from_url rp url on_error outs net p w u = (None, worker rp url on_error outs net p w u)"

definition showerror :: "string \<Rightarrow> callback" where
  "showerror title msg u = (None, u @ [(title, msg)])"

text \<open>\<open>_safe_play_preview\<close>; \<open>format_exc\<close> stands for \<open>traceback.format_exc()\<close>.\<close>

definition safe_play_preview ::
  "(json \<Rightarrow> string) \<Rightarrow> (exc \<Rightarrow> string) \<Rightarrow> json \<Rightarrow> outcomes \<Rightarrow> network \<Rightarrow> player \<Rightarrow> world
     \<Rightarrow> dialogs \<Rightarrow> exc option \<times> exc option \<times> player \<times> world \<times> dialogs" where
  "safe_play_preview rp format_exc preview_url outs net p w u =
     (case play_from_url rp preview_url (Some (showerror ''Preview Error'')) outs net p w u of
        (None, r) \<Rightarrow> (None, r)
      | (Some e, t, p', w', u') \<Rightarrow>
          if is_Exception e then
            (case showerror ''Preview Error'' (format_exc e) u' of (x, u'') \<Rightarrow> (x, t, p', w', u''))
          else (Some e, t, p', w', u'))"

text \<open>The states the player can be in: a new player, and whatever \<open>stop\<close>, a worker, or
  the start of a worker (up to \<open>_ensure_init\<close>, or up to the end of its \<open>try\<close> block)
  leaves.\<close>

inductive reachable :: "player \<Rightarrow> world \<Rightarrow> bool" where
  start: "reachable new_player w"
| after_stop: "reachable p w \<Longrightarrow> stop p w = (x, p', w') \<Longrightarrow> reachable p' w'"
| after_init: "reachable p w \<Longrightarrow> ensure_init outs p w = (x, p', w') \<Longrightarrow> reachable p' w'"
| after_body:
    "reachable p w \<Longrightarrow> play_body rp url outs net p w = (x, p', w') \<Longrightarrow> reachable p' w'"
| after_worker:
    "reachable p w \<Longrightarrow> worker rp url on_error outs net p w u = (x, p', w', u')
       \<Longrightarrow> reachable p' w'"

section \<open>Widgets\<close>

text \<open>
  What the claims observe of a widget: a label's text and colour, a button's text,
  whether it is enabled and what pressing it does, and a frame's children with the grid
  row and column of each. Fonts, sizes and padding are left out.
\<close>

text \<open>What pressing a button runs: \<open>LoadArtist a\<close> is \<open>self._load_artist(a)\<close>, \<open>OpenUrl u\<close>
  is \<open>webbrowser.open(u) if u else None\<close>, and \<open>PlayPreview p\<close> is
  \<open>self._safe_play_preview(p)\<close>.\<close>

datatype command = LoadArtist json | OpenUrl json | PlayPreview json

datatype widget =
    CTkLabel string "string option"
  | CTkButton string bool "command option"
  | CTkFrame "(widget \<times> nat \<times> nat) list"

type_synonym placed = "widget \<times> nat \<times> nat"

definition then_do :: "exc + 'a \<Rightarrow> ('a \<Rightarrow> exc + 'b) \<Rightarrow> exc + 'b" where
  "then_do m f = (case m of Inl e \<Rightarrow> Inl e | Inr x \<Rightarrow> f x)"

definition middot :: string where
  "middot = [CHR 0xC2, CHR 0xB7]"

definition play_symbol :: string where
  "play_symbol = [CHR 0xE2, CHR 0x96, CHR 0xB6]"

definition ellipsis :: string where
  "ellipsis = [CHR 0xE2, CHR 0x80, CHR 0xA6]"

definition note_symbol :: string where
  "note_symbol = [CHR 0xF0, CHR 0x9F, CHR 0x8E, CHR 0xB5]"

definition disc_symbol :: string where
  "disc_symbol = [CHR 0xF0, CHR 0x9F, CHR 0x93, CHR 0x80]"

text \<open>A \<open>for i, x in enumerate(items, start=1)\<close> loop that grids one row per item:
  an exception in the body leaves the rows made so far.\<close>

fun render_rows ::
  "(nat \<Rightarrow> json \<Rightarrow> exc + placed) \<Rightarrow> nat \<Rightarrow> json list \<Rightarrow> placed list
     \<Rightarrow> exc option \<times> placed list" where
  "render_rows row i [] shown = (None, shown)"
| "render_rows row i (x # xs) shown =
     (case row i x of
        Inl e \<Rightarrow> (Some e, shown)
      | Inr r \<Rightarrow> render_rows row (Suc i) xs (shown @ [r]))"

definition clear_results :: "placed list \<Rightarrow> placed list" where
  "clear_results scroll = []"

text \<open>The body of the loop of \<open>_render_artist_choices\<close>.\<close>

definition artist_row :: "(json \<Rightarrow> string) \<Rightarrow> nat \<Rightarrow> json \<Rightarrow> exc + placed" where
  "artist_row rp i a =
     then_do (py_get a ''name'' (JStr ''Unknown'')) (\<lambda>name.
     then_do (py_get a ''followers'' (JObj [])) (\<lambda>f.
     then_do (py_get f ''total'' (JInt 0)) (\<lambda>followers.
     then_do (py_get a ''genres'' (JArr [])) (\<lambda>g.
     then_do (py_slice_to 3 g) (\<lambda>g3.
     then_do (py_join '', '' g3) (\<lambda>joined.
       let genres = (if joined = [] then ''N/A'' else joined) in
       Inr (CTkFrame
              [(CTkLabel (py_str rp name @ ''  '' @ middot @ ''  '' @ py_str rp followers
                            @ '' followers  '' @ middot @ ''  '' @ genres) None, 0, 0),
               (CTkButton ''Open'' True (Some (LoadArtist a)), 0, 1)],
            i, 0)))))))"

definition render_artist_choices ::
  "(json \<Rightarrow> string) \<Rightarrow> json \<Rightarrow> placed list \<Rightarrow> exc option \<times> placed list" where
  "render_artist_choices rp artists scroll =
     (let scroll = clear_results scroll in
      if \<not> py_truthy artists then
        (None, scroll @ [(CTkLabel ''No artists found.'' (Some ''orange''), 0, 0)])
      else
        let scroll = scroll @ [(CTkLabel ''Select an artist:'' None, 0, 0)] in
        (case py_iter artists of
           Inl e \<Rightarrow> (Some e, scroll)
         | Inr items \<Rightarrow> render_rows (artist_row rp) 1 items scroll))"

text \<open>The body of the loop of \<open>_populate_tracks\<close>.\<close>

definition track_row :: "(json \<Rightarrow> string) \<Rightarrow> nat \<Rightarrow> json \<Rightarrow> exc + placed" where
  "track_row rp i t =
     then_do (py_get t ''name'' (JStr ''Unknown'')) (\<lambda>name.
     then_do (py_get t ''external_urls'' (JObj [])) (\<lambda>ext.
     then_do (py_get ext ''spotify'' (JStr [])) (\<lambda>url.
     then_do (py_get t ''preview_url'' JNull) (\<lambda>preview.
       Inr (CTkFrame
              [(CTkLabel (str_int (int i) @ ''. '' @ py_str rp name) None, 0, 0),
               (CTkButton ''Open'' True (Some (OpenUrl url)), 0, 1),
               (if py_truthy preview then
                  CTkButton (play_symbol @ '' Preview'') True (Some (PlayPreview preview))
                else CTkButton ''No Preview'' False None, 0, 2)],
            i, 0)))))"

definition populate_tracks ::
  "(json \<Rightarrow> string) \<Rightarrow> placed list \<Rightarrow> json \<Rightarrow> exc option \<times> placed list" where
  "populate_tracks rp parent tracks =
     (let parent = [] in
      if \<not> py_truthy tracks then
        (None, parent @ [(CTkLabel ''No tracks found.'' (Some ''orange''), 0, 0)])
      else
        (case py_iter tracks of
           Inl e \<Rightarrow> (Some e, parent)
         | Inr items \<Rightarrow> render_rows (track_row rp) 1 items parent))"

text \<open>The body of the loop of \<open>_populate_albums\<close>.\<close>

definition album_row :: "(json \<Rightarrow> string) \<Rightarrow> nat \<Rightarrow> json \<Rightarrow> exc + placed" where
  "album_row rp i a =
     then_do (py_get a ''name'' (JStr ''Unknown'')) (\<lambda>name.
     then_do (py_get a ''release_date'' (JStr ''N/A'')) (\<lambda>date.
     then_do (py_get a ''external_urls'' (JObj [])) (\<lambda>ext.
     then_do (py_get ext ''spotify'' (JStr [])) (\<lambda>url.
       Inr (CTkFrame
              [(CTkLabel (str_int (int i) @ ''. '' @ py_str rp name @ ''  ('' @ py_str rp date
                            @ '')'') None, 0, 0),
               (CTkButton ''Open'' True (Some (OpenUrl url)), 0, 1)],
            i, 0)))))"

definition populate_albums ::
  "(json \<Rightarrow> string) \<Rightarrow> placed list \<Rightarrow> json \<Rightarrow> exc option \<times> placed list" where
  "populate_albums rp parent albums =
     (let parent = [] in
      if \<not> py_truthy albums then
        (None, parent @ [(CTkLabel ''No albums found.'' (Some ''orange''), 0, 0)])
      else
        (case py_iter albums of
           Inl e \<Rightarrow> (Some e, parent)
         | Inr items \<Rightarrow> render_rows (album_row rp) 1 items parent))"

section \<open>Background workers of the detail view\<close>

text \<open>
  A worker fetches on its own thread and schedules one callback on the UI thread. A
  worker's result is the exception that ended the thread or the callback, if any, the
  children of its list frame after the callback, and the requests issued.

  The failure callbacks of the two workers read the handler's variable \<open>e\<close> when they run.
  Python unbinds \<open>e\<close> at the end of the \<open>except\<close> block, so the callback raises
  \<open>NameError\<close> unless it runs before the worker thread has left the block: \<open>e_bound\<close> says
  whether it does.
\<close>

definition failed_callback ::
  "bool \<Rightarrow> string \<Rightarrow> exc \<Rightarrow> placed \<Rightarrow> placed list \<Rightarrow> exc option \<times> placed list" where
  "failed_callback e_bound prefix e loading list_frame =
     (let list_frame = remove1 loading list_frame in
      if e_bound then
        (None, list_frame @ [(CTkLabel (prefix @ exc_str e) (Some ''red''), 0, 0)])
      else (Some (Exc NameError ''free variable e is not bound''), list_frame))"

definition loading_tracks :: placed where
  "loading_tracks = (CTkLabel (''Loading top tracks'' @ ellipsis) None, 0, 0)"

definition top_tracks_worker ::
  "(json \<Rightarrow> string) \<Rightarrow> bool \<Rightarrow> json \<Rightarrow> json \<Rightarrow> network \<Rightarrow> http_request list \<Rightarrow> placed list
     \<Rightarrow> exc option \<times> placed list \<times> http_request list" where
  "top_tracks_worker rp e_bound token artist_id net sent list_frame =
     (case get_artist_top_tracks rp token artist_id None net sent of
        (Inl e, sent') \<Rightarrow>
          if is_Exception e then
            (case failed_callback e_bound ''Failed to load top tracks: '' e loading_tracks list_frame
             of (x, shown) \<Rightarrow> (x, shown, sent'))
          else (Some e, list_frame, sent')
      | (Inr v, sent') \<Rightarrow>
          (case py_slice_to 10 v of
             Inl e \<Rightarrow>
               (case failed_callback e_bound ''Failed to load top tracks: '' e loading_tracks list_frame
                of (x, shown) \<Rightarrow> (x, shown, sent'))
           | Inr tracks \<Rightarrow>
               (case populate_tracks rp list_frame tracks of (x, shown) \<Rightarrow> (x, shown, sent'))))"

definition loading_albums :: placed where
  "loading_albums = (CTkLabel (''Loading albums'' @ ellipsis) None, 0, 0)"

definition albums_worker ::
  "(json \<Rightarrow> string) \<Rightarrow> bool \<Rightarrow> json \<Rightarrow> json \<Rightarrow> network \<Rightarrow> http_request list \<Rightarrow> placed list
     \<Rightarrow> exc option \<times> placed list \<times> http_request list" where
  "albums_worker rp e_bound token artist_id net sent list_frame =
     (case get_artist_albums rp token artist_id (Some (JInt 12)) net sent of
        (Inl e, sent') \<Rightarrow>
          if is_Exception e then
            (case failed_callback e_bound ''Failed to load albums: '' e loading_albums list_frame
             of (x, shown) \<Rightarrow> (x, shown, sent'))
          else (Some e, list_frame, sent')
      | (Inr albums, sent') \<Rightarrow>
          (case populate_albums rp list_frame albums of (x, shown) \<Rightarrow> (x, shown, sent')))"

text \<open>\<open>_render_top_tracks_section\<close> and \<open>_render_albums_section\<close>: the section frame, at
  row 2 and row 3 of the results region, once its worker has run.\<close>

definition render_top_tracks_section ::
  "(json \<Rightarrow> string) \<Rightarrow> bool \<Rightarrow> json \<Rightarrow> json \<Rightarrow> network \<Rightarrow> http_request list
     \<Rightarrow> exc option \<times> placed \<times> http_request list" where
  "render_top_tracks_section rp e_bound token artist_id net sent =
     (case top_tracks_worker rp e_bound token artist_id net sent [loading_tracks] of
        (x, shown, sent') \<Rightarrow>
          (x, (CTkFrame [(CTkLabel (note_symbol @ '' Top Tracks'') None, 0, 0),
                         (CTkFrame shown, 1, 0)], 2, 0), sent'))"

definition render_albums_section ::
  "(json \<Rightarrow> string) \<Rightarrow> bool \<Rightarrow> json \<Rightarrow> json \<Rightarrow> network \<Rightarrow> http_request list
     \<Rightarrow> exc option \<times> placed \<times> http_request list" where
  "render_albums_section rp e_bound token artist_id net sent =
     (case albums_worker rp e_bound token artist_id net sent [loading_albums] of
        (x, shown, sent') \<Rightarrow>
          (x, (CTkFrame [(CTkLabel (disc_symbol @ '' Albums / Releases'') None, 0, 0),
                         (CTkFrame shown, 1, 0)], 3, 0), sent'))"

section \<open>Reading the fields of a JSON object\<close>

text \<open>
  The properties below speak about the fields of an artist or track object. \<open>field\<close>
  reads a key of an object; an artist or track is well formed when it is an object
  whose nested fields, where present, have the type the API gives them
  (\<open>followers\<close> and \<open>external_urls\<close> objects, \<open>genres\<close> a list of strings).
\<close>

definition field :: "json \<Rightarrow> string \<Rightarrow> json option" where
  "field v k = (case v of JObj kv \<Rightarrow> map_of kv k | _ \<Rightarrow> None)"

definition is_object :: "json \<Rightarrow> bool" where
  "is_object v = (case v of JObj _ \<Rightarrow> True | _ \<Rightarrow> False)"

definition is_str :: "json \<Rightarrow> bool" where
  "is_str v = (case v of JStr _ \<Rightarrow> True | _ \<Rightarrow> False)"

definition the_str :: "json \<Rightarrow> string" where
  "the_str v = (case v of JStr s \<Rightarrow> s | _ \<Rightarrow> [])"

definition is_str_list :: "json \<Rightarrow> bool" where
  "is_str_list v = (case v of JArr xs \<Rightarrow> list_all is_str xs | _ \<Rightarrow> False)"

definition strs_of :: "json \<Rightarrow> string list" where
  "strs_of v = (case v of JArr xs \<Rightarrow> map the_str xs | _ \<Rightarrow> [])"

definition artist_ok :: "json \<Rightarrow> bool" where
  "artist_ok a =
     (is_object a
      \<and> (case field a ''followers'' of None \<Rightarrow> True | Some f \<Rightarrow> is_object f)
      \<and> (case field a ''genres'' of None \<Rightarrow> True | Some g \<Rightarrow> is_str_list g))"

definition track_ok :: "json \<Rightarrow> bool" where
  "track_ok t =
     (is_object t
      \<and> (case field t ''external_urls'' of None \<Rightarrow> True | Some e \<Rightarrow> is_object e))"

text \<open>Strings joined by a separator.\<close>

fun join_with :: "string \<Rightarrow> string list \<Rightarrow> string" where
  "join_with sep [] = []"
| "join_with sep [s] = s"
| "join_with sep (s # t # rest) = s @ sep @ join_with sep (t # rest)"

text \<open>Stated from the claims, to be compared with what the code renders: the line the
  artist list is to show for an artist. The name, \<open>Unknown\<close> when it is missing; the
  follower count, 0 when it is missing; the first three genres joined by a comma and a
  space, \<open>N/A\<close> when there is none.\<close>

definition spec_artist_line :: "(json \<Rightarrow> string) \<Rightarrow> json \<Rightarrow> string" where
  "spec_artist_line rp a =
     (case field a ''name'' of None \<Rightarrow> ''Unknown'' | Some v \<Rightarrow> py_str rp v)
     @ ''  '' @ middot @ ''  ''
     @ (case field a ''followers'' of
          None \<Rightarrow> ''0''
        | Some f \<Rightarrow> (case field f ''total'' of None \<Rightarrow> ''0'' | Some t \<Rightarrow> py_str rp t))
     @ '' followers  '' @ middot @ ''  ''
     @ (case field a ''genres'' of
          None \<Rightarrow> ''N/A''
        | Some g \<Rightarrow>
            if join_with '', '' (take 3 (strs_of g)) = [] then ''N/A''
            else join_with '', '' (take 3 (strs_of g)))"

text \<open>The rows of a results region a user can select an artist with: the frames that
  hold an enabled button that opens an artist.\<close>

definition opens_artist :: "placed \<Rightarrow> bool" where
  "opens_artist c = (case c of
       (CTkButton _ True (Some (LoadArtist _)), _, _) \<Rightarrow> True
     | _ \<Rightarrow> False)"

definition selectable :: "placed \<Rightarrow> bool" where
  "selectable r = (case r of
       (CTkFrame children, _, _) \<Rightarrow> list_ex opens_artist children
     | _ \<Rightarrow> False)"

text \<open>Stated from the claims, to be compared with what the code renders: the row the
  artist list is to show for the \<open>i\<close>-th artist, and the row the track list is to show for
  the \<open>i\<close>-th track (its number and name, a button that opens its page, and the preview
  button, enabled only when the track has a preview URL).\<close>

definition spec_artist_row :: "(json \<Rightarrow> string) \<Rightarrow> nat \<Rightarrow> json \<Rightarrow> placed" where
  "spec_artist_row rp i a =
     (CTkFrame [(CTkLabel (spec_artist_line rp a) None, 0, 0),
                (CTkButton ''Open'' True (Some (LoadArtist a)), 0, 1)], i, 0)"

definition spec_preview_button :: "json \<Rightarrow> widget" where
  "spec_preview_button t =
     (case field t ''preview_url'' of
        None \<Rightarrow> CTkButton ''No Preview'' False None
      | Some p \<Rightarrow>
          if py_truthy p then CTkButton (play_symbol @ '' Preview'') True (Some (PlayPreview p))
          else CTkButton ''No Preview'' False None)"

definition spec_track_row :: "(json \<Rightarrow> string) \<Rightarrow> nat \<Rightarrow> json \<Rightarrow> placed" where
  "spec_track_row rp i t =
     (CTkFrame
        [(CTkLabel (str_int (int i) @ ''. ''
                     @ (case field t ''name'' of None \<Rightarrow> ''Unknown'' | Some v \<Rightarrow> py_str rp v))
            None, 0, 0),
         (CTkButton ''Open'' True
            (Some (OpenUrl (case field t ''external_urls'' of
                              None \<Rightarrow> JStr []
                            | Some e \<Rightarrow> (case field e ''spotify'' of
                                           None \<Rightarrow> JStr []
                                         | Some u \<Rightarrow> u)))), 0, 1),
         (spec_preview_button t, 0, 2)],
      i, 0)"

section \<open>Example inputs\<close>

text \<open>A network that answers every request with the response \<open>r\<close>, one on which every
  request fails with \<open>e\<close>, and a \<open>repr\<close> for the examples, none of which formats a list
  or a dict.\<close>

definition answering :: "http_response \<Rightarrow> network" where
  "answering r = (\<lambda>rq. Inr r)"

definition failing :: "exc \<Rightarrow> network" where
  "failing e = (\<lambda>rq. Inl e)"

definition no_repr :: "json \<Rightarrow> string" where
  "no_repr v = []"

definition limit_param :: "http_request \<Rightarrow> json option" where
  "limit_param rq = map_of (rq_params rq) ''limit''"

definition empty_object_body :: http_response where
  "empty_object_body = \<lparr> status_code = 200, body_text = ''{}'', content = ''{}'',
     json_body = Some (JObj []) \<rparr>"

definition unauthorized :: http_response where
  "unauthorized = \<lparr> status_code = 401, body_text = ''{\"error\":\"invalid_client\"}'',
     content = ''{\"error\":\"invalid_client\"}'',
     json_body = Some (JObj [(''error'', JStr ''invalid_client'')]) \<rparr>"

definition granted :: http_response where
  "granted = \<lparr> status_code = 200, body_text = ''{\"access_token\":\"BQDx\"}'',
     content = ''{\"access_token\":\"BQDx\"}'',
     json_body = Some (JObj [(''access_token'', JStr ''BQDx'')]) \<rparr>"

definition no_token_body :: http_response where
  "no_token_body = \<lparr> status_code = 200, body_text = ''{\"token_type\":\"Bearer\"}'',
     content = ''{\"token_type\":\"Bearer\"}'',
     json_body = Some (JObj [(''token_type'', JStr ''Bearer'')]) \<rparr>"

definition fine :: outcomes where
  "fine = \<lparr> mixer_init_fails = None, tmpfile_result = Inr ''/tmp/tmpa1b2c3.mp3'',
     write_fails = None, flush_fails = None, close_fails = None,
     load_fails = None, play_fails = None \<rparr>"

definition silent :: world where
  "silent = \<lparr> mixer_ready = False, music_loaded = None, music_busy = False,
     tmp_files = [], requested = [] \<rparr>"

definition not_found :: http_response where
  "not_found = \<lparr> status_code = 404, body_text = ''Not Found'', content = ''Not Found'',
     json_body = None \<rparr>"

definition no_traceback :: "exc \<Rightarrow> string" where
  "no_traceback e = []"

definition preview_clip :: http_response where
  "preview_clip = \<lparr> status_code = 200, body_text = ''ID3'', content = ''ID3'',
     json_body = None \<rparr>"

definition playing_player :: player where
  "playing_player = \<lparr> initialized = True, current_file = Some ''/tmp/tmpa1b2c3.mp3'',
     is_playing = True \<rparr>"

definition playing_world :: world where
  "playing_world = \<lparr> mixer_ready = True, music_loaded = Some ''/tmp/tmpa1b2c3.mp3'',
     music_busy = True, tmp_files = [(''/tmp/tmpa1b2c3.mp3'', ''ID3'')],
     requested = [preview_request no_repr (JStr ''https://p.scdn.co/mp3-preview/abc'')] \<rparr>"

definition adele :: json where
  "adele = JObj [(''id'', JStr ''4dpARuHxo51G3z768sgnrY''), (''name'', JStr ''Adele''),
     (''followers'', JObj [(''href'', JNull), (''total'', JInt 1500)]),
     (''genres'', JArr [JStr ''british soul'', JStr ''pop'', JStr ''pop soul'', JStr ''uk pop''])]"

definition adele_givens :: json where
  "adele_givens = JObj [(''id'', JStr ''0uprPzDOGsxvkuM8sGcHGM''), (''name'', JStr ''Adele Givens'')]"

definition nameless :: json where
  "nameless = JObj [(''id'', JStr ''7dGJo4pcD2V6oG8kP0tJRR''), (''followers'', JObj []),
     (''genres'', JArr [])]"

definition stale :: "placed list" where
  "stale = [(CTkLabel (''Searching'' @ ellipsis) None, 0, 0)]"

definition hello :: json where
  "hello = JObj [(''name'', JStr ''Hello''),
     (''external_urls'', JObj [(''spotify'', JStr ''https://open.spotify.com/track/1'')]),
     (''preview_url'', JStr ''https://p.scdn.co/mp3-preview/abc'')]"

definition skyfall :: json where
  "skyfall = JObj [(''name'', JStr ''Skyfall''), (''preview_url'', JNull)]"

definition numbered_track :: "int \<Rightarrow> json" where
  "numbered_track n = JObj [(''name'', JStr (''Track '' @ str_int n))]"

definition twelve_tracks :: "json list" where
  "twelve_tracks = map numbered_track [1, 2, 3, 4, 5, 6, 7, 8, 9, 10, 11, 12]"

definition top_tracks_response :: http_response where
  "top_tracks_response = \<lparr> status_code = 200, body_text = ''{\"tracks\": []}'',
     content = ''{\"tracks\": []}'', json_body = Some (JObj [(''tracks'', JArr twelve_tracks)]) \<rparr>"

section \<open>Token acquisition\<close>

text \<open>
  C1. When the client identifier or the client secret is missing (unset or empty),
  \<open>get_token\<close> raises the missing-credentials error on the credential check alone:
  the list of issued requests is returned as it was given, so no POST to the token
  endpoint has been made, whatever the network would have answered.
\<close>

theorem get_token_missing_credentials:
  assumes "CLIENT_ID = None \<or> CLIENT_ID = Some [] \<or> CLIENT_SECRET = None \<or> CLIENT_SECRET = Some []"
  shows "get_token CLIENT_ID CLIENT_SECRET net sent =
           (Inl (Exc RuntimeError ''Missing CLIENT_ID or CLIENT_SECRET in .env''), sent)"
  using assms by (auto simp: get_token_def split: option.splits)

theorem get_token_missing_credentials_witness:
  "get_token (Some ''abc'') None (failing (Exc RequestException ''unreachable'')) [] =
     (Inl (Exc RuntimeError ''Missing CLIENT_ID or CLIENT_SECRET in .env''), [])
   \<and> get_token (Some []) (Some ''s3cret'') (failing (Exc RequestException ''unreachable'')) [] =
     (Inl (Exc RuntimeError ''Missing CLIENT_ID or CLIENT_SECRET in .env''), [])"
  using get_token_missing_credentials [where CLIENT_ID = "Some ''abc''" and CLIENT_SECRET = None]
    get_token_missing_credentials [where CLIENT_ID = "Some []" and CLIENT_SECRET = "Some ''s3cret''"]
  by simp

text \<open>With both credentials present exactly one request is issued, the POST to the token
  endpoint, whatever the outcome.\<close>

lemma get_token_sent:
  "cid \<noteq> [] \<Longrightarrow> secret \<noteq> [] \<Longrightarrow>
   snd (get_token (Some cid) (Some secret) net sent) = sent @ [token_request cid secret]"
  by (simp add: get_token_def split: sum.splits)

text \<open>
  C2, as the code has it. For a token-endpoint response whose status code is not 200,
  \<open>get_token\<close> fails with the error whose message is \<open>Token error [<status>]: <body>\<close>,
  so it carries the status code and the body text. For a 200 response whose JSON body is
  an object with the key \<open>access_token\<close>, it returns the value under that key.
\<close>

theorem get_token_response:
  assumes "cid \<noteq> []" and "secret \<noteq> []"
    and "net (token_request cid secret) = Inr resp"
  shows "(status_code resp \<noteq> 200 \<longrightarrow>
            fst (get_token (Some cid) (Some secret) net sent) =
              Inl (Exc RuntimeError
                (''Token error ['' @ str_int (status_code resp) @ '']: '' @ body_text resp)))
       \<and> (status_code resp = 200 \<longrightarrow> json_body resp = Some (JObj kv) \<longrightarrow>
            map_of kv ''access_token'' = Some tok \<longrightarrow>
            fst (get_token (Some cid) (Some secret) net sent) = Inr tok)"
  using assms by (simp add: get_token_def resp_json_def py_getitem_def)

theorem get_token_response_witness:
  "fst (get_token (Some ''id'') (Some ''secret'') (answering unauthorized) []) =
     Inl (Exc RuntimeError ''Token error [401]: {\"error\":\"invalid_client\"}'')
   \<and> fst (get_token (Some ''id'') (Some ''secret'') (answering granted) []) =
     Inr (JStr ''BQDx'')"
proof -
  have s: "str_int 401 = ''401''"
    by code_simp
  have "fst (get_token (Some ''id'') (Some ''secret'') (answering unauthorized) []) =
     Inl (Exc RuntimeError ''Token error [401]: {\"error\":\"invalid_client\"}'')"
    using get_token_response [where cid = "''id''" and secret = "''secret''"
        and net = "answering unauthorized" and resp = unauthorized and sent = "[]"]
    by (simp add: unauthorized_def answering_def s)
  moreover have "fst (get_token (Some ''id'') (Some ''secret'') (answering granted) []) =
     Inr (JStr ''BQDx'')"
    using get_token_response [where cid = "''id''" and secret = "''secret''"
        and net = "answering granted" and resp = granted and sent = "[]"
        and kv = "[(''access_token'', JStr ''BQDx'')]" and tok = "JStr ''BQDx''"]
    by (simp add: granted_def answering_def)
  ultimately show ?thesis by simp
qed

text \<open>The claim as it is written fails: a 200 response whose JSON body is the empty
  object makes \<open>get_token\<close> raise, and no token is returned.\<close>

theorem get_token_200_counterexample:
  "fst (get_token (Some ''id'') (Some ''secret'') (answering empty_object_body) []) =
     Inl (Exc KeyError (quote ''access_token''))"
  by (simp add: get_token_def resp_json_def py_getitem_def answering_def empty_object_body_def)

text \<open>
  C9. A 200 response whose JSON body is an object without the key \<open>access_token\<close> makes
  \<open>get_token\<close> raise \<open>KeyError\<close> for that key, after the request was issued: the lookup is
  unguarded, and the error is not the \<open>Token error\<close> raised for the other status codes.
\<close>

theorem get_token_missing_key:
  assumes "cid \<noteq> []" and "secret \<noteq> []"
    and "net (token_request cid secret) = Inr resp"
    and "status_code resp = 200"
    and "json_body resp = Some (JObj kv)"
    and "map_of kv ''access_token'' = None"
  shows "get_token (Some cid) (Some secret) net sent =
           (Inl (Exc KeyError (quote ''access_token'')), sent @ [token_request cid secret])
       \<and> Exc KeyError (quote ''access_token'') \<noteq>
           Exc RuntimeError
             (''Token error ['' @ str_int (status_code resp) @ '']: '' @ body_text resp)"
  using assms by (simp add: get_token_def resp_json_def py_getitem_def)

theorem get_token_missing_key_witness:
  "get_token (Some ''id'') (Some ''secret'') (answering no_token_body) [] =
     (Inl (Exc KeyError (quote ''access_token'')), [token_request ''id'' ''secret''])"
  using get_token_missing_key [where cid = "''id''" and secret = "''secret''"
      and net = "answering no_token_body" and resp = no_token_body
      and kv = "[(''token_type'', JStr ''Bearer'')]" and sent = "[]"]
  by (simp add: no_token_body_def answering_def)

section \<open>Albums fetch\<close>

lemma get_artist_albums_sent:
  "snd (get_artist_albums rp token artist_id limit_arg net sent) =
     sent @ [albums_request rp token artist_id
               (case limit_arg of None \<Rightarrow> JInt 10 | Some l \<Rightarrow> l)]"
  by (simp add: get_artist_albums_def Let_def)

lemma albums_worker_sent:
  "snd (snd (albums_worker rp e_bound token artist_id net sent list_frame)) =
     snd (get_artist_albums rp token artist_id (Some (JInt 12)) net sent)"
  by (simp add: albums_worker_def split: prod.splits sum.splits)

text \<open>
  C3, as the code has it. The albums fetch of the application, the one its albums worker
  makes, issues exactly one request: a GET for the artist's albums that asks for the
  release types album, single and compilation, with the market \<open>US\<close> and a page limit
  of 12 items. (The default limit of \<open>get_artist_albums\<close> is 10; the worker passes 12.)
\<close>

theorem albums_worker_request:
  "snd (snd (albums_worker rp e_bound token artist_id net sent list_frame)) =
     sent @ [\<lparr> rq_method = ''GET'',
               rq_url = ''https://api.spotify.com/v1/artists/'' @ py_str rp artist_id @ ''/albums'',
               rq_headers = [(''Authorization'', ''Bearer '' @ py_str rp token)],
               rq_params = [(''include_groups'', JStr ''album,single,compilation''),
                            (''limit'', JInt 12),
                            (''market'', JStr ''US'')],
               rq_data = [],
               rq_timeout = 15 \<rparr>]"
  unfolding albums_worker_sent get_artist_albums_sent
  by (simp add: albums_request_def auth_header_def)

text \<open>The claim as it is written fails: the request of the worker asks for 12 items,
  not for 10.\<close>

theorem albums_limit_counterexample:
  "map limit_param
     (snd (snd (albums_worker no_repr False (JStr ''BQDx'') (JStr ''4dpARuHxo51G3z768sgnrY'')
        (failing (Exc RequestException ''timed out'')) [] [loading_albums])))
   = [Some (JInt 12)]"
  unfolding albums_worker_sent get_artist_albums_sent
  by (simp add: albums_request_def limit_param_def)

section \<open>Preview player\<close>

text \<open>The worker's \<open>try\<close> block succeeds exactly when every step does: the mixer opens,
  the download answers 200, the temporary file is created, written, flushed and closed,
  and the engine loads and plays it. Every other run ends in an exception.\<close>

lemma download_and_play_ok:
  assumes "mixer_ready w"
  shows "fst (download_and_play rp url outs net p w) = None \<longleftrightarrow>
     (\<exists>r. net (preview_request rp url) = Inr r \<and> status_code r = 200)
     \<and> (\<exists>name. tmpfile_result outs = Inr name)
     \<and> write_fails outs = None \<and> flush_fails outs = None \<and> close_fails outs = None
     \<and> load_fails outs = None \<and> play_fails outs = None"
  using assms
  by (auto simp: download_and_play_def music_load_def music_play_def Let_def
      split: sum.splits option.splits)

lemma play_body_ok:
  assumes "initialized p \<longrightarrow> mixer_ready w"
  shows "fst (play_body rp url outs net p w) = None \<longleftrightarrow>
     (initialized p \<or> mixer_init_fails outs = None)
     \<and> (\<exists>r. net (preview_request rp url) = Inr r \<and> status_code r = 200)
     \<and> (\<exists>name. tmpfile_result outs = Inr name)
     \<and> write_fails outs = None \<and> flush_fails outs = None \<and> close_fails outs = None
     \<and> load_fails outs = None \<and> play_fails outs = None"
proof (cases "initialized p")
  case True
  with assms show ?thesis
    using download_and_play_ok [of w rp url outs net p]
    by (simp add: play_body_def ensure_init_def)
next
  case False
  show ?thesis
  proof (cases "mixer_init_fails outs")
    case None
    with False show ?thesis
      using download_and_play_ok [of "w\<lparr>mixer_ready := True\<rparr>" rp url outs net
          "p\<lparr>initialized := True\<rparr>"]
      by (simp add: play_body_def ensure_init_def mixer_init_def)
  next
    case (Some e)
    with False show ?thesis
      by (simp add: play_body_def ensure_init_def mixer_init_def)
  qed
qed

text \<open>The flag \<open>initialized\<close> is only set once \<open>pygame.mixer.init()\<close> has succeeded, in
  every state the player reaches.\<close>

lemma ensure_init_ready:
  "ensure_init outs p w = (x, p', w') \<Longrightarrow> initialized p \<longrightarrow> mixer_ready w \<Longrightarrow>
     initialized p' \<longrightarrow> mixer_ready w'"
  by (auto simp: ensure_init_def mixer_init_def split: if_splits option.splits)

lemma download_and_play_ready:
  "download_and_play rp url outs net p w = (x, p', w') \<Longrightarrow>
     initialized p' = initialized p \<and> mixer_ready w' = mixer_ready w"
  by (auto simp: download_and_play_def music_load_def music_play_def Let_def
      split: sum.splits if_splits option.splits)

lemma play_body_ready:
  assumes "play_body rp url outs net p w = (x, p', w')" and "initialized p \<longrightarrow> mixer_ready w"
  shows "initialized p' \<longrightarrow> mixer_ready w'"
proof (cases "ensure_init outs p w")
  case (fields y p1 w1)
  with assms(2) have r: "initialized p1 \<longrightarrow> mixer_ready w1"
    using ensure_init_ready by blast
  show ?thesis
  proof (cases y)
    case None
    with fields assms(1) have "download_and_play rp url outs net p1 w1 = (x, p', w')"
      by (simp add: play_body_def)
    with r show ?thesis
      using download_and_play_ready by blast
  next
    case (Some e)
    with fields assms(1) r show ?thesis
      by (simp add: play_body_def)
  qed
qed

lemma worker_ready:
  assumes "worker rp url on_error outs net p w u = (x, p', w', u')"
    and "initialized p \<longrightarrow> mixer_ready w"
  shows "initialized p' \<longrightarrow> mixer_ready w'"
proof (cases "play_body rp url outs net p w")
  case (fields y p1 w1)
  with assms(2) have "initialized p1 \<longrightarrow> mixer_ready w1"
    using play_body_ready by blast
  with fields assms(1) show ?thesis
    by (auto simp: worker_def split: option.splits if_splits prod.splits)
qed

lemma stop_ready:
  "stop p w = (x, p', w') \<Longrightarrow> initialized p \<longrightarrow> mixer_ready w \<Longrightarrow>
     initialized p' \<longrightarrow> mixer_ready w'"
  by (auto simp: stop_def music_stop_def split: if_splits)

lemma reachable_ready: "reachable p w \<Longrightarrow> initialized p \<longrightarrow> mixer_ready w"
proof (induction rule: reachable.induct)
  case (start w)
  show ?case by (simp add: new_player_def)
next
  case (after_stop p w x p' w')
  then show ?case using stop_ready by blast
next
  case (after_init p w outs x p' w')
  then show ?case using ensure_init_ready by blast
next
  case (after_body p w rp url outs net x p' w')
  then show ?case using play_body_ready by blast
next
  case (after_worker p w rp url on_error outs net u x p' w' u')
  then show ?case using worker_ready by blast
qed

text \<open>
  C4. When the \<open>try\<close> block of a play operation ends in an error (an \<open>Exception\<close>: a failed
  download, a status other than 200, a failed write of the temporary file, a failure of
  the audio engine), nothing is raised to the caller of \<open>play_from_url\<close>; \<open>is_playing\<close> is
  set to \<open>False\<close>, the rest of the state is as the failing step left it, and a supplied
  callback is applied once, to the error's description; without a callback nothing else
  happens. Only the callback itself can end the worker thread with an exception. Through
  \<open>_safe_play_preview\<close> the error becomes exactly one \<open>Preview Error\<close> message box.
\<close>

theorem play_from_url_errors:
  assumes "play_body rp url outs net p w = (Some e, p1, w1)" and "is_Exception e"
  shows "play_from_url rp url on_error outs net p w u =
           (None,
            (case on_error of None \<Rightarrow> None | Some cb \<Rightarrow> fst (cb (exc_str e) u)),
            p1\<lparr>is_playing := False\<rparr>, w1,
            (case on_error of None \<Rightarrow> u | Some cb \<Rightarrow> snd (cb (exc_str e) u)))
       \<and> safe_play_preview rp format_exc url outs net p w u =
           (None, None, p1\<lparr>is_playing := False\<rparr>, w1, u @ [(''Preview Error'', exc_str e)])"
  using assms
  by (simp add: play_from_url_def safe_play_preview_def worker_def showerror_def
      split: option.splits prod.splits)

lemma play_body_not_found:
  "play_body no_repr (JStr ''https://p.scdn.co/mp3-preview/abc'') fine (answering not_found)
     new_player silent =
   (Some (Exc RuntimeError ''Preview download error [404]''),
    \<lparr> initialized = True, current_file = None, is_playing = False \<rparr>,
    \<lparr> mixer_ready = True, music_loaded = None, music_busy = False, tmp_files = [],
      requested = [preview_request no_repr (JStr ''https://p.scdn.co/mp3-preview/abc'')] \<rparr>)"
proof -
  have s: "str_int 404 = ''404''"
    by code_simp
  show ?thesis
    by (simp add: play_body_def ensure_init_def mixer_init_def download_and_play_def
        fine_def answering_def not_found_def new_player_def silent_def s)
qed

theorem play_from_url_errors_witness:
  "safe_play_preview no_repr no_traceback (JStr ''https://p.scdn.co/mp3-preview/abc'') fine
     (answering not_found) new_player silent [] =
   (None, None,
    \<lparr> initialized = True, current_file = None, is_playing = False \<rparr>,
    \<lparr> mixer_ready = True, music_loaded = None, music_busy = False, tmp_files = [],
      requested = [preview_request no_repr (JStr ''https://p.scdn.co/mp3-preview/abc'')] \<rparr>,
    [(''Preview Error'', ''Preview download error [404]'')])"
  using play_from_url_errors [OF play_body_not_found, where on_error = None and u = "[]"
      and format_exc = no_traceback]
  by (simp add: is_Exception_def)

text \<open>
  C5. \<open>stop\<close> never changes \<open>current_file\<close> and never removes a temporary file, in any
  state; calling it again changes nothing more and has the same outcome; when the player
  is not initialized it returns without raising and leaves the player and the world as
  they were; and in every state the player can reach it does not raise.
\<close>

theorem stop_properties:
  "(case stop p w of (x, p', w') \<Rightarrow>
      current_file p' = current_file p \<and> tmp_files w' = tmp_files w
    \<and> stop p' w' = (x, p', w')
    \<and> (\<not> initialized p \<longrightarrow> x = None \<and> p' = p \<and> w' = w)
    \<and> (reachable p w \<longrightarrow> x = None))"
proof -
  have "reachable p w \<Longrightarrow> initialized p \<Longrightarrow> mixer_ready w"
    using reachable_ready by blast
  then show ?thesis
    by (auto simp: stop_def music_stop_def)
qed

lemma worker_plays:
  "worker no_repr (JStr ''https://p.scdn.co/mp3-preview/abc'') None fine (answering preview_clip)
     new_player silent [] = (None, playing_player, playing_world, [])"
  by (simp add: worker_def play_body_def ensure_init_def mixer_init_def download_and_play_def
      music_load_def music_play_def fine_def answering_def preview_clip_def new_player_def
      silent_def playing_player_def playing_world_def)

lemma reachable_playing: "reachable playing_player playing_world"
  using reachable.after_worker [OF reachable.start worker_plays] .

theorem stop_properties_witness:
  "reachable playing_player playing_world
   \<and> stop playing_player playing_world =
       (None, playing_player\<lparr>is_playing := False\<rparr>, playing_world\<lparr>music_busy := False\<rparr>)
   \<and> current_file (playing_player\<lparr>is_playing := False\<rparr>) = Some ''/tmp/tmpa1b2c3.mp3''
   \<and> tmp_files (playing_world\<lparr>music_busy := False\<rparr>) = [(''/tmp/tmpa1b2c3.mp3'', ''ID3'')]
   \<and> stop (playing_player\<lparr>is_playing := False\<rparr>) (playing_world\<lparr>music_busy := False\<rparr>) =
       (None, playing_player\<lparr>is_playing := False\<rparr>, playing_world\<lparr>music_busy := False\<rparr>)
   \<and> \<not> initialized new_player
   \<and> stop new_player silent = (None, new_player, silent)"
proof -
  have a: "stop playing_player playing_world =
       (None, playing_player\<lparr>is_playing := False\<rparr>, playing_world\<lparr>music_busy := False\<rparr>)"
    by (simp add: stop_def music_stop_def playing_player_def playing_world_def)
  have b: "\<not> initialized new_player"
    by (simp add: new_player_def)
  show ?thesis
    using stop_properties [of playing_player playing_world] stop_properties [of new_player silent]
      reachable_playing a b
    by (auto simp: playing_player_def playing_world_def split: prod.splits)
qed

section \<open>Rows of a list\<close>

text \<open>A loop that ends without an exception has added one row per item, in order; and
  when the body succeeds on every item the loop adds exactly those rows.\<close>

lemma str_int_0: "str_int 0 = ''0''"
  by code_simp

lemma render_rows_shown:
  "render_rows row i xs shown = (None, rows) \<Longrightarrow>
     \<exists>rs. rows = shown @ rs \<and> length rs = length xs
        \<and> (\<forall>k<length xs. row (i + k) (xs ! k) = Inr (rs ! k))"
proof (induction xs arbitrary: i shown)
  case Nil
  then show ?case by simp
next
  case (Cons x xs)
  from Cons.prems obtain r where r: "row i x = Inr r"
    and rest: "render_rows row (Suc i) xs (shown @ [r]) = (None, rows)"
    by (auto split: sum.splits)
  from Cons.IH [OF rest] obtain rs where rs: "rows = (shown @ [r]) @ rs"
    "length rs = length xs" "\<forall>k<length xs. row (Suc i + k) (xs ! k) = Inr (rs ! k)"
    by blast
  have "\<forall>k<length (x # xs). row (i + k) ((x # xs) ! k) = Inr ((r # rs) ! k)"
  proof (intro allI impI)
    fix k assume "k < length (x # xs)"
    then show "row (i + k) ((x # xs) ! k) = Inr ((r # rs) ! k)"
      using r rs(3) by (cases k) auto
  qed
  with rs(1,2) show ?case
    by (intro exI [of _ "r # rs"]) simp
qed

lemma render_rows_all:
  "\<forall>k<length xs. row (i + k) (xs ! k) = Inr (f (i + k) (xs ! k)) \<Longrightarrow>
     render_rows row i xs shown =
       (None, shown @ map (\<lambda>(j, x). f j x) (zip [i..<i + length xs] xs))"
proof (induction xs arbitrary: i shown)
  case Nil
  then show ?case by simp
next
  case (Cons x xs)
  from Cons.prems have "row (i + 0) ((x # xs) ! 0) = Inr (f (i + 0) ((x # xs) ! 0))"
    by blast
  then have r: "row i x = Inr (f i x)"
    by simp
  have "\<forall>k<length xs. row (Suc i + k) (xs ! k) = Inr (f (Suc i + k) (xs ! k))"
  proof (intro allI impI)
    fix k assume "k < length xs"
    then have "row (i + Suc k) ((x # xs) ! Suc k) = Inr (f (i + Suc k) ((x # xs) ! Suc k))"
      using Cons.prems by (metis Suc_less_eq length_Cons)
    then show "row (Suc i + k) (xs ! k) = Inr (f (Suc i + k) (xs ! k))"
      by simp
  qed
  from Cons.IH [OF this, of "shown @ [f i x]"]
  have rs: "render_rows row (Suc i) xs (shown @ [f i x]) =
      (None, (shown @ [f i x]) @ map (\<lambda>(j, x). f j x) (zip [Suc i..<Suc i + length xs] xs))" .
  have "[i..<i + length (x # xs)] = i # [Suc i..<Suc i + length xs]"
    by (simp add: upt_rec)
  with r rs show ?case
    by simp
qed

section \<open>Artist list\<close>

lemma join_strs_strings:
  "list_all is_str xs \<Longrightarrow> join_strs sep xs = Inr (join_with sep (map the_str xs))"
proof (induction xs)
  case Nil
  then show ?case by simp
next
  case (Cons x xs)
  then obtain s where s: "x = JStr s"
    by (cases x) (auto simp: is_str_def)
  show ?case
  proof (cases xs)
    case Nil
    with s show ?thesis by (simp add: the_str_def)
  next
    case (Cons y ys)
    with Cons.IH Cons.prems s show ?thesis
      by (simp add: the_str_def)
  qed
qed

lemma genres_joined:
  assumes "is_str_list g"
  shows "then_do (py_slice_to 3 g) (\<lambda>g3. then_do (py_join '', '' g3) k) =
           k (join_with '', '' (take 3 (strs_of g)))"
proof -
  from assms obtain xs where g: "g = JArr xs" and xs: "list_all is_str xs"
    by (cases g) (auto simp: is_str_list_def)
  from xs have "list_all is_str (take 3 xs)"
    by (metis list_all_append append_take_drop_id)
  then have "join_strs '', '' (take 3 xs) = Inr (join_with '', '' (map the_str (take 3 xs)))"
    by (rule join_strs_strings)
  with g show ?thesis
    by (simp add: then_do_def py_slice_to_def py_join_def py_iter_def strs_of_def take_map)
qed

lemma artist_row_ok:
  assumes "artist_ok a"
  shows "artist_row rp i a = Inr (spec_artist_row rp i a)"
proof -
  from assms obtain kv where a: "a = JObj kv"
    by (cases a) (auto simp: artist_ok_def is_object_def)
  have f: "then_do (py_get a ''followers'' (JObj [])) (\<lambda>f. then_do (py_get f ''total'' (JInt 0)) k)
      = k (case field a ''followers'' of None \<Rightarrow> JInt 0
           | Some f \<Rightarrow> (case field f ''total'' of None \<Rightarrow> JInt 0 | Some t \<Rightarrow> t))" for k
  proof (cases "map_of kv ''followers''")
    case None
    with a show ?thesis
      by (simp add: then_do_def py_get_def field_def)
  next
    case (Some fo)
    with assms a obtain fkv where "fo = JObj fkv"
      by (cases fo) (auto simp: artist_ok_def is_object_def field_def)
    with Some a show ?thesis
      by (simp add: then_do_def py_get_def field_def split: option.splits)
  qed
  have g: "then_do (py_get a ''genres'' (JArr [])) (\<lambda>g. then_do (py_slice_to 3 g)
             (\<lambda>g3. then_do (py_join '', '' g3) k))
      = k (case field a ''genres'' of None \<Rightarrow> []
           | Some g \<Rightarrow> join_with '', '' (take 3 (strs_of g)))" for k
  proof (cases "map_of kv ''genres''")
    case None
    with a show ?thesis
      by (simp add: then_do_def py_get_def field_def py_slice_to_def py_join_def py_iter_def)
  next
    case (Some g)
    with assms a have "is_str_list g"
      by (simp add: artist_ok_def field_def)
    from genres_joined [OF this] Some a show ?thesis
      by (simp add: then_do_def py_get_def field_def)
  qed
  have n: "then_do (py_get a ''name'' (JStr ''Unknown'')) k
      = k (case field a ''name'' of None \<Rightarrow> JStr ''Unknown'' | Some v \<Rightarrow> v)" for k
    using a by (simp add: then_do_def py_get_def field_def)
  show ?thesis
    unfolding artist_row_def n f g
    by (simp add: spec_artist_row_def spec_artist_line_def str_int_0 split: option.splits)
qed

lemma selectable_artist_frame: "selectable (spec_artist_row rp i a)"
  by (simp add: selectable_def spec_artist_row_def opens_artist_def)

lemma render_artist_rows:
  assumes "\<forall>a\<in>set as. artist_ok a"
  shows "render_rows (artist_row rp) i as shown =
           (None, shown @ map (\<lambda>(j, a). spec_artist_row rp j a) (zip [i..<i + length as] as))"
proof (rule render_rows_all)
  show "\<forall>k<length as. artist_row rp (i + k) (as ! k) = Inr (spec_artist_row rp (i + k) (as ! k))"
    using assms by (simp add: artist_row_ok)
qed

text \<open>
  C8. For a result list of well-formed artists, \<open>_render_artist_choices\<close> clears the region
  and raises nothing. For the empty list the region then holds exactly the
  \<open>No artists found.\<close> label and no selectable row. For a list of \<open>n\<close> artists it holds the
  heading and then exactly \<open>n\<close> selectable rows, in input order at grid rows 1 to \<open>n\<close>, each
  with the artist's line (name, follower count, at most the first three genres joined by
  a comma and a space) and a button that opens that artist.
\<close>

theorem render_artist_choices_rows:
  assumes "\<forall>a\<in>set as. artist_ok a"
  shows "render_artist_choices rp (JArr as) scroll =
           (None,
            if as = [] then [(CTkLabel ''No artists found.'' (Some ''orange''), 0, 0)]
            else (CTkLabel ''Select an artist:'' None, 0, 0)
                 # map (\<lambda>(i, a). spec_artist_row rp i a) (zip [1..<Suc (length as)] as))
       \<and> length (filter selectable (snd (render_artist_choices rp (JArr as) scroll))) = length as"
proof (cases "as = []")
  case True
  then show ?thesis
    by (simp add: render_artist_choices_def clear_results_def selectable_def)
next
  case False
  have rows: "render_artist_choices rp (JArr as) scroll =
      (None, (CTkLabel ''Select an artist:'' None, 0, 0)
             # map (\<lambda>(i, a). spec_artist_row rp i a) (zip [1..<Suc (length as)] as))"
    using False render_artist_rows [OF assms, of rp 1]
    by (simp add: render_artist_choices_def clear_results_def py_iter_def)
  define frames where
    "frames = map (\<lambda>(i, a). spec_artist_row rp i a) (zip [1..<Suc (length as)] as)"
  have "filter selectable frames = frames"
    unfolding frames_def by (rule filter_True) (auto simp: selectable_artist_frame)
  moreover have "length frames = length as"
    unfolding frames_def by (simp del: upt_Suc)
  moreover have "\<not> selectable (CTkLabel ''Select an artist:'' None, 0, 0)"
    by (simp add: selectable_def)
  ultimately have "length (filter selectable
      ((CTkLabel ''Select an artist:'' None, 0, 0) # frames)) = length as"
    by simp
  with rows False show ?thesis
    unfolding frames_def by (simp del: upt_Suc)
qed

theorem render_artist_choices_rows_witness:
  "render_artist_choices no_repr (JArr [adele, adele_givens]) stale =
     (None,
      [(CTkLabel ''Select an artist:'' None, 0, 0),
       (CTkFrame
          [(CTkLabel (''Adele  '' @ middot @ ''  1500 followers  '' @ middot
                        @ ''  british soul, pop, pop soul'') None, 0, 0),
           (CTkButton ''Open'' True (Some (LoadArtist adele)), 0, 1)], 1, 0),
       (CTkFrame
          [(CTkLabel (''Adele Givens  '' @ middot @ ''  0 followers  '' @ middot @ ''  N/A'')
              None, 0, 0),
           (CTkButton ''Open'' True (Some (LoadArtist adele_givens)), 0, 1)], 2, 0)])
   \<and> render_artist_choices no_repr (JArr []) stale =
     (None, [(CTkLabel ''No artists found.'' (Some ''orange''), 0, 0)])"
proof -
  have ok: "\<forall>a\<in>set [adele, adele_givens]. artist_ok a"
    by (simp add: artist_ok_def is_object_def field_def is_str_list_def is_str_def
        adele_def adele_givens_def)
  have n: "str_int 1500 = ''1500''"
    by code_simp
  have l1: "spec_artist_line no_repr adele =
      ''Adele  '' @ middot @ ''  1500 followers  '' @ middot @ ''  british soul, pop, pop soul''"
    by (simp add: spec_artist_line_def field_def adele_def strs_of_def the_str_def n)
  have l2: "spec_artist_line no_repr adele_givens =
      ''Adele Givens  '' @ middot @ ''  0 followers  '' @ middot @ ''  N/A''"
    by (simp add: spec_artist_line_def field_def adele_givens_def)
  have u: "[1..<Suc (length [adele, adele_givens])] = [1, 2]"
    by (simp add: upt_rec)
  show ?thesis
    using render_artist_choices_rows [OF ok, of no_repr stale]
      render_artist_choices_rows [of "[]" no_repr stale]
    unfolding u
    by (simp add: spec_artist_row_def l1 l2)
qed

text \<open>
  C10. For every well-formed artist object the row is rendered without an exception,
  whichever of its fields are missing: a missing \<open>name\<close> is shown as \<open>Unknown\<close>, a missing
  \<open>followers\<close> or \<open>total\<close> as 0, and a missing or empty \<open>genres\<close> as \<open>N/A\<close>.
\<close>

theorem artist_row_missing_fields:
  assumes "artist_ok a"
  shows "artist_row rp i a =
     Inr (CTkFrame
            [(CTkLabel
                ((case field a ''name'' of None \<Rightarrow> ''Unknown'' | Some v \<Rightarrow> py_str rp v)
                 @ ''  '' @ middot @ ''  ''
                 @ (case field a ''followers'' of
                      None \<Rightarrow> ''0''
                    | Some f \<Rightarrow> (case field f ''total'' of None \<Rightarrow> ''0'' | Some t \<Rightarrow> py_str rp t))
                 @ '' followers  '' @ middot @ ''  ''
                 @ (case field a ''genres'' of
                      None \<Rightarrow> ''N/A''
                    | Some g \<Rightarrow>
                        if join_with '', '' (take 3 (strs_of g)) = [] then ''N/A''
                        else join_with '', '' (take 3 (strs_of g)))) None, 0, 0),
             (CTkButton ''Open'' True (Some (LoadArtist a)), 0, 1)],
          i, 0)"
  using artist_row_ok [OF assms, of rp i]
  by (simp add: spec_artist_row_def spec_artist_line_def)

theorem artist_row_missing_fields_witness:
  "artist_row no_repr 1 nameless =
     Inr (CTkFrame
            [(CTkLabel (''Unknown  '' @ middot @ ''  0 followers  '' @ middot @ ''  N/A'') None, 0, 0),
             (CTkButton ''Open'' True (Some (LoadArtist nameless)), 0, 1)], 1, 0)
   \<and> artist_row no_repr 2 adele_givens =
     Inr (CTkFrame
            [(CTkLabel (''Adele Givens  '' @ middot @ ''  0 followers  '' @ middot @ ''  N/A'')
                None, 0, 0),
             (CTkButton ''Open'' True (Some (LoadArtist adele_givens)), 0, 1)], 2, 0)"
proof -
  have ok1: "artist_ok nameless"
    by (simp add: artist_ok_def is_object_def field_def is_str_list_def nameless_def)
  have ok2: "artist_ok adele_givens"
    by (simp add: artist_ok_def is_object_def field_def adele_givens_def)
  have f1: "field nameless ''name'' = None" "field nameless ''followers'' = Some (JObj [])"
    "field nameless ''genres'' = Some (JArr [])" "field (JObj []) ''total'' = None"
    by (simp_all add: field_def nameless_def)
  have f2: "field adele_givens ''name'' = Some (JStr ''Adele Givens'')"
    "field adele_givens ''followers'' = None" "field adele_givens ''genres'' = None"
    by (simp_all add: field_def adele_givens_def)
  show ?thesis
    using artist_row_missing_fields [OF ok1, of no_repr 1]
      artist_row_missing_fields [OF ok2, of no_repr 2]
    by (simp add: f1 f2 strs_of_def)
qed

section \<open>Track list\<close>

text \<open>The body of the track loop succeeds exactly on the well-formed tracks, and then
  makes the track's row.\<close>

lemma track_row_iff:
  "track_row rp i t = Inr r \<longleftrightarrow> track_ok t \<and> r = spec_track_row rp i t"
proof (cases t)
  case (JObj kv)
  show ?thesis
  proof (cases "map_of kv ''external_urls''")
    case None
    with JObj show ?thesis
      by (auto simp: track_row_def then_do_def py_get_def track_ok_def is_object_def field_def
          spec_track_row_def spec_preview_button_def split: option.splits)
  next
    case (Some e)
    with JObj show ?thesis
      by (cases e)
        (auto simp: track_row_def then_do_def py_get_def track_ok_def is_object_def field_def
          spec_track_row_def spec_preview_button_def split: option.splits)
  qed
qed (auto simp: track_row_def then_do_def py_get_def track_ok_def is_object_def)

lemma render_track_rows:
  assumes "\<forall>t\<in>set ts. track_ok t"
  shows "render_rows (track_row rp) i ts shown =
           (None, shown @ map (\<lambda>(j, t). spec_track_row rp j t) (zip [i..<i + length ts] ts))"
proof (rule render_rows_all)
  show "\<forall>k<length ts. track_row rp (i + k) (ts ! k) = Inr (spec_track_row rp (i + k) (ts ! k))"
    using assms by (simp add: track_row_iff)
qed

lemma populate_tracks_list:
  assumes "\<forall>t\<in>set ts. track_ok t"
  shows "populate_tracks rp parent (JArr ts) =
           (None,
            if ts = [] then [(CTkLabel ''No tracks found.'' (Some ''orange''), 0, 0)]
            else map (\<lambda>(i, t). spec_track_row rp i t) (zip [1..<Suc (length ts)] ts))"
  using render_track_rows [OF assms, of rp 1 "[]"]
  by (simp add: populate_tracks_def py_iter_def)

lemma get_artist_top_tracks_list:
  assumes "net (top_tracks_request rp token artist_id (JStr ''US'')) = Inr resp"
    and "status_code resp = 200"
    and "json_body resp = Some (JObj kv)"
    and "map_of kv ''tracks'' = Some v"
  shows "get_artist_top_tracks rp token artist_id None net sent =
           (Inr v, sent @ [top_tracks_request rp token artist_id (JStr ''US'')])"
  using assms by (simp add: get_artist_top_tracks_def resp_json_def py_getitem_def)

text \<open>
  C6. When the top-tracks response is a list, the worker hands \<open>_populate_tracks\<close> its first
  10 items: at most 10, the whole list unchanged when it has 10 or fewer. For well-formed
  tracks the rows rendered are those of these items, in the order of the response, at
  grid rows 1, 2, ...
\<close>

theorem top_tracks_worker_truncates:
  assumes "net (top_tracks_request rp token artist_id (JStr ''US'')) = Inr resp"
    and "status_code resp = 200"
    and "json_body resp = Some (JObj kv)"
    and "map_of kv ''tracks'' = Some (JArr ts)"
  shows "top_tracks_worker rp e_bound token artist_id net sent list_frame =
           (case populate_tracks rp list_frame (JArr (take 10 ts)) of
              (x, shown) \<Rightarrow>
                (x, shown, sent @ [top_tracks_request rp token artist_id (JStr ''US'')]))
       \<and> length (take 10 ts) = min 10 (length ts)
       \<and> (length ts \<le> 10 \<longrightarrow> take 10 ts = ts)
       \<and> ((\<forall>t\<in>set (take 10 ts). track_ok t) \<longrightarrow>
            populate_tracks rp list_frame (JArr (take 10 ts)) =
              (None,
               if ts = [] then [(CTkLabel ''No tracks found.'' (Some ''orange''), 0, 0)]
               else map (\<lambda>(i, t). spec_track_row rp i t)
                      (zip [1..<Suc (min 10 (length ts))] (take 10 ts))))"
proof -
  have "top_tracks_worker rp e_bound token artist_id net sent list_frame =
           (case populate_tracks rp list_frame (JArr (take 10 ts)) of
              (x, shown) \<Rightarrow>
                (x, shown, sent @ [top_tracks_request rp token artist_id (JStr ''US'')]))"
    using assms get_artist_top_tracks_list [where net = net and rp = rp and token = token
        and artist_id = artist_id and resp = resp and kv = kv and v = "JArr ts" and sent = sent]
    by (simp add: top_tracks_worker_def py_slice_to_def)
  moreover have "(\<forall>t\<in>set (take 10 ts). track_ok t) \<longrightarrow>
            populate_tracks rp list_frame (JArr (take 10 ts)) =
              (None,
               if ts = [] then [(CTkLabel ''No tracks found.'' (Some ''orange''), 0, 0)]
               else map (\<lambda>(i, t). spec_track_row rp i t)
                      (zip [1..<Suc (min 10 (length ts))] (take 10 ts)))"
    using populate_tracks_list [of "take 10 ts" rp list_frame]
    by (auto simp: min_def)
  ultimately show ?thesis
    by (simp add: min_def)
qed

theorem top_tracks_worker_truncates_witness:
  "top_tracks_worker no_repr False (JStr ''BQDx'') (JStr ''4dpARuHxo51G3z768sgnrY'')
     (answering top_tracks_response) [] [loading_tracks] =
     (None,
      map (\<lambda>(i, t). spec_track_row no_repr i t) (zip [1, 2, 3, 4, 5, 6, 7, 8, 9, 10]
        (map numbered_track [1, 2, 3, 4, 5, 6, 7, 8, 9, 10])),
      [top_tracks_request no_repr (JStr ''BQDx'') (JStr ''4dpARuHxo51G3z768sgnrY'') (JStr ''US'')])"
proof -
  have t: "take 10 twelve_tracks = map numbered_track [1, 2, 3, 4, 5, 6, 7, 8, 9, 10]"
    by (simp add: twelve_tracks_def)
  have ok: "\<forall>t\<in>set (take 10 twelve_tracks). track_ok t"
    unfolding t by (simp add: track_ok_def is_object_def field_def numbered_track_def)
  have len: "min 10 (length twelve_tracks) = 10" "twelve_tracks \<noteq> []"
    by (simp_all add: twelve_tracks_def)
  have u: "[1..<Suc 10] = [1, 2, 3, 4, 5, 6, 7, 8, 9, 10]"
    by (simp add: upt_rec)
  have resp: "answering top_tracks_response
      (top_tracks_request no_repr (JStr ''BQDx'') (JStr ''4dpARuHxo51G3z768sgnrY'') (JStr ''US''))
      = Inr top_tracks_response"
    "status_code top_tracks_response = 200"
    "json_body top_tracks_response = Some (JObj [(''tracks'', JArr twelve_tracks)])"
    "map_of [(''tracks'', JArr twelve_tracks)] ''tracks'' = Some (JArr twelve_tracks)"
    by (simp_all add: answering_def top_tracks_response_def)
  show ?thesis
    using resp ok top_tracks_worker_truncates [where net = "answering top_tracks_response"
        and rp = no_repr and token = "JStr ''BQDx''" and artist_id = "JStr ''4dpARuHxo51G3z768sgnrY''"
        and resp = top_tracks_response and kv = "[(''tracks'', JArr twelve_tracks)]"
        and ts = twelve_tracks and e_bound = False and sent = "[]"
        and list_frame = "[loading_tracks]"]
    unfolding len(1) u t
    by (simp add: len(2))
qed

text \<open>
  C7. In a track list rendered without an exception, the row of every track has a
  preview button as its third control. When \<open>preview_url\<close> is missing or \<open>None\<close> the button
  is the disabled \<open>No Preview\<close> button; when the track has a preview URL (a value that
  counts as true) the button is enabled and plays that URL.
\<close>

theorem populate_tracks_preview_button:
  assumes "populate_tracks rp parent (JArr ts) = (None, rows)" and "k < length ts"
  shows "\<exists>lbl opn btn.
           rows ! k = (CTkFrame [(lbl, 0, 0), (opn, 0, 1), (btn, 0, 2)], Suc k, 0)
         \<and> (field (ts ! k) ''preview_url'' = None \<or> field (ts ! k) ''preview_url'' = Some JNull
              \<longrightarrow> btn = CTkButton ''No Preview'' False None)
         \<and> (\<forall>p. field (ts ! k) ''preview_url'' = Some p \<longrightarrow>
               btn = (if py_truthy p
                      then CTkButton (play_symbol @ '' Preview'') True (Some (PlayPreview p))
                      else CTkButton ''No Preview'' False None))"
proof -
  from assms(2) have ne: "ts \<noteq> []"
    by auto
  with assms(1) have "render_rows (track_row rp) 1 ts [] = (None, rows)"
    by (simp add: populate_tracks_def py_iter_def)
  from render_rows_shown [OF this] obtain rs where
    rs: "rows = [] @ rs" "\<forall>j<length ts. track_row rp (1 + j) (ts ! j) = Inr (rs ! j)"
    by blast
  with assms(2) have "track_row rp (Suc k) (ts ! k) = Inr (rows ! k)"
    by simp
  then have "rows ! k = spec_track_row rp (Suc k) (ts ! k)"
    by (simp add: track_row_iff)
  then show ?thesis
    by (auto simp: spec_track_row_def spec_preview_button_def)
qed

theorem populate_tracks_preview_button_witness:
  "\<exists>rows. populate_tracks no_repr [loading_tracks] (JArr [hello, skyfall]) = (None, rows)
     \<and> (\<exists>lbl opn. rows ! 0 =
          (CTkFrame [(lbl, 0, 0), (opn, 0, 1),
                     (CTkButton (play_symbol @ '' Preview'') True
                        (Some (PlayPreview (JStr ''https://p.scdn.co/mp3-preview/abc''))), 0, 2)],
           1, 0))
     \<and> (\<exists>lbl opn. rows ! 1 =
          (CTkFrame [(lbl, 0, 0), (opn, 0, 1), (CTkButton ''No Preview'' False None, 0, 2)],
           2, 0))"
proof -
  have ok: "\<forall>t\<in>set [hello, skyfall]. track_ok t"
    by (simp add: track_ok_def is_object_def field_def hello_def skyfall_def)
  from populate_tracks_list [OF ok, of no_repr "[loading_tracks]"]
  obtain rows where rows: "populate_tracks no_repr [loading_tracks] (JArr [hello, skyfall]) = (None, rows)"
    by simp
  have f: "field ([hello, skyfall] ! 0) ''preview_url'' = Some (JStr ''https://p.scdn.co/mp3-preview/abc'')"
    "field ([hello, skyfall] ! 1) ''preview_url'' = Some JNull"
    by (simp_all add: field_def hello_def skyfall_def)
  from populate_tracks_preview_button [OF rows, of 0] f(1)
  have a: "\<exists>lbl opn. rows ! 0 =
          (CTkFrame [(lbl, 0, 0), (opn, 0, 1),
                     (CTkButton (play_symbol @ '' Preview'') True
                        (Some (PlayPreview (JStr ''https://p.scdn.co/mp3-preview/abc''))), 0, 2)],
           1, 0)"
    by auto
  from populate_tracks_preview_button [OF rows, of 1] f(2)
  have b: "\<exists>lbl opn. rows ! 1 =
          (CTkFrame [(lbl, 0, 0), (opn, 0, 1), (CTkButton ''No Preview'' False None, 0, 2)],
           2, 0)"
    by auto
  from rows a b show ?thesis
    by blast
qed


end
